theory Spec2Isabelle
  imports Complex_Main
begin

section \<open>JavaScript values that reach the decorated properties\<close>

text \<open>
  The two classes of the source (\<^verbatim>\<open>BrokerApplicationsListRequestDto\<close> and
  \<^verbatim>\<open>Application\<close>) are declarative: each property carries decorators of
  class-transformer, class-validator and sequelize-typescript. The embedding gives each
  decorator the meaning its library documents and transcribes the decorator lists of the
  source property by property.

  A value is \<^verbatim>\<open>undefined\<close>, \<^verbatim>\<open>null\<close>, a boolean, a finite
  number (exact, as a rational), a string, a \<^verbatim>\<open>Date\<close> (its time value in
  milliseconds, \<open>None\<close> for the NaN of an invalid date) or an array of strings (what a
  repeated query-string key gives).
\<close>

datatype jsval =
    Undefined
  | Null
  | BoolV bool
  | NumV rat
  | StrV string
  | DateV "int option"
  | ArrV "string list"

text \<open>Truthiness, as the left operand of \<^verbatim>\<open>&&\<close> and \<^verbatim>\<open>||\<close> reads it.\<close>

fun truthy :: "jsval \<Rightarrow> bool" where
  "truthy Undefined = False"
| "truthy Null = False"
| "truthy (BoolV b) = b"
| "truthy (NumV r) = (r \<noteq> 0)"
| "truthy (StrV s) = (s \<noteq> [])"
| "truthy (DateV t) = True"
| "truthy (ArrV xs) = True"

subsection \<open>The Date constructor\<close>

text \<open>
  \<^verbatim>\<open>Date.parse\<close> is the engine's: it is a parameter \<open>parse\<close> of the model,
  giving the time value of a string or \<open>None\<close> where the engine gives NaN.
  \<^verbatim>\<open>new Date(v)\<close> copies the time value of a Date, parses a string (an array is
  first joined with commas, as its \<^verbatim>\<open>toString\<close> does) and clips a number.
\<close>

definition timeClip :: "rat \<Rightarrow> int option" where
  "timeClip r =
     (if \<bar>r\<bar> > 8640000000000000 then None
      else Some (if r \<ge> 0 then \<lfloor>r\<rfloor> else \<lceil>r\<rceil>))"

fun joinComma :: "string list \<Rightarrow> string" where
  "joinComma [] = []"
| "joinComma [x] = x"
| "joinComma (x # y # ys) = x @ '','' @ joinComma (y # ys)"

fun newDate :: "(string \<Rightarrow> int option) \<Rightarrow> jsval \<Rightarrow> int option" where
  "newDate parse Undefined = None"
| "newDate parse Null = Some 0"
| "newDate parse (BoolV b) = Some (if b then 1 else 0)"
| "newDate parse (NumV r) = timeClip r"
| "newDate parse (StrV s) = parse s"
| "newDate parse (DateV t) = t"
| "newDate parse (ArrV xs) = parse (joinComma xs)"

text \<open>\<^verbatim>\<open>isNaN(d.getTime())\<close> of a Date with time value \<open>t\<close>.\<close>

definition isNaN :: "int option \<Rightarrow> bool" where
  "isNaN t = (t = None)"

subsection \<open>A concrete \<open>parse\<close>: the date-only form of the ECMAScript format\<close>

text \<open>
  The theorems below hold for every \<open>parse\<close>. Concrete evaluations use
  \<open>parseDateOnly\<close>, which reads the date-only form \<^verbatim>\<open>YYYY-MM-DD\<close> of the
  ECMAScript date-time string format (UTC midnight of that calendar day) and gives NaN on
  every other string, a day that the month does not have included.
\<close>

definition digitVal :: "char \<Rightarrow> int option" where
  "digitVal c =
     (let n = (of_char c :: nat) in if 48 \<le> n \<and> n \<le> 57 then Some (int n - 48) else None)"

fun digitsVal :: "int \<Rightarrow> string \<Rightarrow> int option" where
  "digitsVal acc [] = Some acc"
| "digitsVal acc (c # cs) =
     (case digitVal c of None \<Rightarrow> None | Some d \<Rightarrow> digitsVal (10 * acc + d) cs)"

definition isLeapYear :: "int \<Rightarrow> bool" where
  "isLeapYear y = (y mod 4 = 0 \<and> (y mod 100 \<noteq> 0 \<or> y mod 400 = 0))"

definition daysInMonth :: "int \<Rightarrow> int \<Rightarrow> int" where
  "daysInMonth y m =
     (if m = 2 then (if isLeapYear y then 29 else 28)
      else if m = 4 \<or> m = 6 \<or> m = 9 \<or> m = 11 then 30 else 31)"

definition daysFromCivil :: "int \<Rightarrow> int \<Rightarrow> int \<Rightarrow> int" where
  "daysFromCivil y m d =
     (let y' = (if m \<le> 2 then y - 1 else y);
          era = y' div 400;
          yoe = y' - era * 400;
          doy = (153 * (if m > 2 then m - 3 else m + 9) + 2) div 5 + d - 1;
          doe = yoe * 365 + yoe div 4 - yoe div 100 + doy
      in era * 146097 + doe - 719468)"

definition parseDateOnly :: "string \<Rightarrow> int option" where
  "parseDateOnly s =
     (if length s = 10 \<and> s ! 4 = CHR ''-'' \<and> s ! 7 = CHR ''-'' then
        (case (digitsVal 0 (take 4 s), digitsVal 0 (take 2 (drop 5 s)),
               digitsVal 0 (drop 8 s)) of
           (Some y, Some m, Some d) \<Rightarrow>
             (if 1 \<le> m \<and> m \<le> 12 \<and> 1 \<le> d \<and> d \<le> daysInMonth y m
              then Some (86400000 * daysFromCivil y m d) else None)
         | _ \<Rightarrow> None)
      else None)"

section \<open>The list-applications request DTO\<close>

subsection \<open>class-transformer: \<^verbatim>\<open>@Type(() => Date)\<close> and \<^verbatim>\<open>@Transform\<close>\<close>

text \<open>
  Lines 35 and 44 of the source, the same arrow function on both date properties:
  \<^verbatim>\<open>({ value }) => (value && !isNaN(new Date(value).getTime()) ? new Date(value) : null)\<close>
\<close>

definition transformDate :: "(string \<Rightarrow> int option) \<Rightarrow> jsval \<Rightarrow> jsval" where
  "transformDate parse v =
     (if truthy v \<and> \<not> isNaN (newDate parse v) then DateV (newDate parse v) else Null)"

text \<open>
  \<^verbatim>\<open>@Type(() => Date)\<close> on a string of the plain object: class-transformer builds
  \<^verbatim>\<open>new Date(value)\<close> before it runs the custom \<^verbatim>\<open>@Transform\<close>.
\<close>

definition typeDate :: "(string \<Rightarrow> int option) \<Rightarrow> string \<Rightarrow> jsval" where
  "typeDate parse s = DateV (newDate parse (StrV s))"

text \<open>
  The query string as the HTTP layer hands it over. \<open>status\<close> and \<open>completed\<close> are any
  value (\<open>Undefined\<close> when the key is absent); a date parameter is absent or one string.
  A key that is absent from the plain object is not transformed: the property stays
  \<^verbatim>\<open>undefined\<close>.
\<close>

record query =
  q_status :: jsval
  q_completed :: jsval
  q_minimumDate :: "string option"
  q_maximumDate :: "string option"

record BrokerApplicationsListRequestDto =
  status :: jsval
  completed :: jsval
  minimumDate :: jsval
  maximumDate :: jsval

definition normalizeDate :: "(string \<Rightarrow> int option) \<Rightarrow> string option \<Rightarrow> jsval" where
  "normalizeDate parse raw =
     (case raw of None \<Rightarrow> Undefined | Some s \<Rightarrow> transformDate parse (typeDate parse s))"

definition plainToClass ::
  "(string \<Rightarrow> int option) \<Rightarrow> query \<Rightarrow> BrokerApplicationsListRequestDto" where
  "plainToClass parse q =
     \<lparr> status = q_status q,
       completed = q_completed q,
       minimumDate = normalizeDate parse (q_minimumDate q),
       maximumDate = normalizeDate parse (q_maximumDate q) \<rparr>"

subsection \<open>class-validator\<close>

text \<open>
  The validation decorators of the two classes. \<^verbatim>\<open>@IsEnum(E)\<close> holds the values of
  the enum object \<open>E\<close>; \<^verbatim>\<open>@IsEnum(E, { each: true })\<close> is \<open>IsEnumEach\<close>. The
  enums \<^verbatim>\<open>ApplicationStatus\<close> and \<^verbatim>\<open>TaskStatus\<close> are imported from files
  that are not part of the source at hand, so the lists of their values are parameters.
\<close>

datatype validator =
    IsArray
  | IsEnum "string list"
  | IsEnumEach "string list"
  | IsDate
  | IsString
  | IsEmail
  | IsInt
  | IsNumber
  | IsOptional

text \<open>The key under which class-validator reports a failed decorator.\<close>

datatype constraint =
    isArray | isEnum | isDate | isString | isEmail | isInt | isNumber
  | conditionalValidation

fun constraintOf :: "validator \<Rightarrow> constraint" where
  "constraintOf IsArray = isArray"
| "constraintOf (IsEnum vals) = isEnum"
| "constraintOf (IsEnumEach vals) = isEnum"
| "constraintOf IsDate = isDate"
| "constraintOf IsString = isString"
| "constraintOf IsEmail = isEmail"
| "constraintOf IsInt = isInt"
| "constraintOf IsNumber = isNumber"
| "constraintOf IsOptional = conditionalValidation"

text \<open>
  What each decorator tests:
  \<^item> \<^verbatim>\<open>IsArray\<close>: \<^verbatim>\<open>Array.isArray(value)\<close>;
  \<^item> \<^verbatim>\<open>IsEnum\<close>: the values of the enum include the value (strict equality); with
    \<^verbatim>\<open>each\<close>, every element of an array does, and a value that is no array is
    tested itself;
  \<^item> \<^verbatim>\<open>IsDate\<close>: a Date whose time value is not NaN;
  \<^item> \<^verbatim>\<open>IsString\<close>: \<^verbatim>\<open>typeof value === 'string'\<close>;
  \<^item> \<^verbatim>\<open>IsEmail\<close>: a string that validator.js accepts as an e-mail address (the
    parameter \<open>em\<close>);
  \<^item> \<^verbatim>\<open>IsInt\<close>: a number that is an integer; \<^verbatim>\<open>IsNumber\<close>: a finite number.
  \<^verbatim>\<open>IsOptional\<close> tests nothing: it switches the other decorators off (below).
\<close>

fun satisfies :: "(string \<Rightarrow> bool) \<Rightarrow> validator \<Rightarrow> jsval \<Rightarrow> bool" where
  "satisfies em IsArray v = (case v of ArrV xs \<Rightarrow> True | _ \<Rightarrow> False)"
| "satisfies em (IsEnum vals) v = (case v of StrV s \<Rightarrow> s \<in> set vals | _ \<Rightarrow> False)"
| "satisfies em (IsEnumEach vals) v =
     (case v of ArrV xs \<Rightarrow> list_all (\<lambda>s. s \<in> set vals) xs
              | StrV s \<Rightarrow> s \<in> set vals
              | _ \<Rightarrow> False)"
| "satisfies em IsDate v = (case v of DateV t \<Rightarrow> \<not> isNaN t | _ \<Rightarrow> False)"
| "satisfies em IsString v = (case v of StrV s \<Rightarrow> True | _ \<Rightarrow> False)"
| "satisfies em IsEmail v = (case v of StrV s \<Rightarrow> em s | _ \<Rightarrow> False)"
| "satisfies em IsInt v = (case v of NumV r \<Rightarrow> of_int \<lfloor>r\<rfloor> = r | _ \<Rightarrow> False)"
| "satisfies em IsNumber v = (case v of NumV r \<Rightarrow> True | _ \<Rightarrow> False)"
| "satisfies em IsOptional v = True"

text \<open>
  The validation of one property: with \<^verbatim>\<open>@IsOptional()\<close>, a value that is
  \<^verbatim>\<open>null\<close> or \<^verbatim>\<open>undefined\<close> skips every decorator of the property;
  otherwise every decorator is tested and every failure is reported (no short cut).
\<close>

definition validateProperty ::
  "(string \<Rightarrow> bool) \<Rightarrow> string \<Rightarrow> validator list \<Rightarrow> jsval \<Rightarrow> (string \<times> constraint) list" where
  "validateProperty em p vs v =
     (if IsOptional \<in> set vs \<and> (v = Undefined \<or> v = Null) then []
      else map (\<lambda>d. (p, constraintOf d)) (filter (\<lambda>d. \<not> satisfies em d v) vs))"




text \<open>
  Modelled from the spec: the enum \<^verbatim>\<open>ApplicationStatus\<close>
  (src/enums/application-status.enum) is imported by the source but is not among its
  files. The spec lists its members as \<open>Pending\<close>, \<open>InProgress\<close>, \<open>Completed\<close> and
  \<open>OnHold\<close>.
\<close>

definition ApplicationStatus :: "string list" where
  "ApplicationStatus = [''Pending'', ''InProgress'', ''Completed'', ''OnHold'']"

subsection \<open>The documented bad-request messages\<close>

text \<open>
  The three messages are constants imported from src/common/constants/response-messages,
  whose text is not among the source files: they are three symbolic constants here.
  \<^verbatim>\<open>BAD_REQUEST_ERRORS\<close> (lines 95-99) lists them for the documented response body.
\<close>

datatype message =
    INVALID_MINIMUM_DATE_ERROR
  | INVALID_MAXIMUM_DATE_ERROR
  | MINIMUM_DATE_EXCEEDS_MAXIMUM_DATE_ERROR

definition BAD_REQUEST_ERRORS :: "message list" where
  "BAD_REQUEST_ERRORS =
     [INVALID_MINIMUM_DATE_ERROR, INVALID_MAXIMUM_DATE_ERROR,
      MINIMUM_DATE_EXCEEDS_MAXIMUM_DATE_ERROR]"

datatype request_error = DateRangeError message

text \<open>
  Modelled from the spec: the check of the date range. The source declares the message
  \<^verbatim>\<open>MINIMUM_DATE_EXCEEDS_MAXIMUM_DATE_ERROR\<close> in \<^verbatim>\<open>BAD_REQUEST_ERRORS\<close>, but the
  code that compares the two dates (the handler that consumes the validated filter) is not
  among the source files. The spec, section 4.2 (3): "After transformation, if both are
  present and minimum > maximum, fail with DateRangeError carrying the message
  MINIMUM_DATE_EXCEEDS_MAXIMUM_DATE_ERROR."
\<close>

definition checkDateRange ::
  "BrokerApplicationsListRequestDto \<Rightarrow> request_error + BrokerApplicationsListRequestDto" where
  "checkDateRange d =
     (case (minimumDate d, maximumDate d) of
        (DateV (Some a), DateV (Some b)) \<Rightarrow>
          (if a > b then Inl (DateRangeError MINIMUM_DATE_EXCEEDS_MAXIMUM_DATE_ERROR)
           else Inr d)
      | _ \<Rightarrow> Inr d)"

subsection \<open>Example requests\<close>



definition invertedRangeQuery :: query where
  "invertedRangeQuery =
     \<lparr> q_status = Undefined, q_completed = Undefined,
       q_minimumDate = Some ''2024-01-01'', q_maximumDate = Some ''2023-01-01'' \<rparr>"

section \<open>The Application entity\<close>

subsection \<open>The decorated properties\<close>

text \<open>
  A property of the class with what its decorators say: the class-validator decorators in
  the order of the source, whether it carries class-transformer's \<^verbatim>\<open>@Exclude()\<close>,
  and its \<^verbatim>\<open>@Column\<close>: the data type and the name of the table column, which is the
  \<^verbatim>\<open>field\<close> option when there is one and the property name otherwise. An
  association (\<^verbatim>\<open>@BelongsTo\<close>, \<^verbatim>\<open>@HasMany\<close>) has no column.
\<close>

datatype dataType =
    INTEGER
  | VIRTUAL
  | STRING nat
  | DECIMAL nat nat
  | DATE
  | NamedType string

record property =
  name :: string
  validators :: "validator list"
  exclude :: bool
  column :: "(dataType \<times> string) option"

text \<open>The class \<^verbatim>\<open>Application\<close>, lines 125-379, property by property.\<close>

definition Application :: "string list \<Rightarrow> property list" where
  "Application applicationStatus =
     [ \<lparr> name = ''id'', validators = [], exclude = True,
         column = Some (INTEGER, ''id'') \<rparr>,
       \<lparr> name = ''applicationId'', validators = [], exclude = False,
         column = Some (VIRTUAL, ''applicationId'') \<rparr>,
       \<lparr> name = ''applicantName'', validators = [IsString], exclude = False,
         column = Some (STRING 50, ''applicant_name'') \<rparr>,
       \<lparr> name = ''applicantEmail'', validators = [IsEmail], exclude = False,
         column = Some (STRING 255, ''applicant_email'') \<rparr>,
       \<lparr> name = ''applicantMobilePhoneNumber'', validators = [IsString], exclude = False,
         column = Some (STRING 20, ''applicant_mobile_phone_number'') \<rparr>,
       \<lparr> name = ''applicantAddress'', validators = [IsString], exclude = False,
         column = Some (STRING 50, ''applicant_address'') \<rparr>,
       \<lparr> name = ''broker'', validators = [], exclude = False, column = None \<rparr>,
       \<lparr> name = ''brokerId'', validators = [IsInt, IsOptional], exclude = False,
         column = Some (INTEGER, ''broker_id'') \<rparr>,
       \<lparr> name = ''annualIncomeBeforeTax'', validators = [IsNumber], exclude = False,
         column = Some (DECIMAL 10 2, ''annual_income_before_tax'') \<rparr>,
       \<lparr> name = ''incomingAddress'', validators = [IsString], exclude = False,
         column = Some (STRING 50, ''incoming_address'') \<rparr>,
       \<lparr> name = ''incomingDeposit'', validators = [IsNumber], exclude = False,
         column = Some (DECIMAL 10 2, ''incoming_deposit'') \<rparr>,
       \<lparr> name = ''incomingPrice'', validators = [IsNumber], exclude = False,
         column = Some (DECIMAL 10 2, ''incoming_price'') \<rparr>,
       \<lparr> name = ''incomingStampDuty'', validators = [IsNumber], exclude = False,
         column = Some (DECIMAL 10 2, ''incoming_stamp_duty'') \<rparr>,
       \<lparr> name = ''loanAmount'', validators = [IsNumber], exclude = False,
         column = Some (DECIMAL 10 2, ''loan_amount'') \<rparr>,
       \<lparr> name = ''loanDuration'', validators = [IsNumber], exclude = False,
         column = Some (INTEGER, ''loan_duration'') \<rparr>,
       \<lparr> name = ''monthlyExpenses'', validators = [IsNumber], exclude = False,
         column = Some (DECIMAL 10 2, ''monthly_expenses'') \<rparr>,
       \<lparr> name = ''outgoingAddress'', validators = [IsString], exclude = False,
         column = Some (STRING 50, ''outgoing_address'') \<rparr>,
       \<lparr> name = ''outgoingMortgage'', validators = [IsNumber], exclude = False,
         column = Some (DECIMAL 10 2, ''outgoing_valuation'') \<rparr>,
       \<lparr> name = ''outgoingValuation'', validators = [IsNumber], exclude = False,
         column = Some (DECIMAL 10 2, ''outgoing_valuation'') \<rparr>,
       \<lparr> name = ''savingsContribution'', validators = [IsNumber], exclude = False,
         column = Some (DECIMAL 10 2, ''savings_contribution'') \<rparr>,
       \<lparr> name = ''status'', validators = [IsEnum applicationStatus], exclude = False,
         column = Some (NamedType ''enum_application_status'', ''status'') \<rparr>,
       \<lparr> name = ''task'', validators = [], exclude = False, column = None \<rparr>,
       \<lparr> name = ''createdAt'', validators = [IsDate], exclude = True,
         column = Some (DATE, ''created_at'') \<rparr>,
       \<lparr> name = ''updatedAt'', validators = [IsDate, IsOptional], exclude = True,
         column = Some (DATE, ''updated_at'') \<rparr> ]"

text \<open>
  An object is read property by property (\<open>Undefined\<close> for a property it does not have).
  class-validator validates an object of a class by validating every decorated property
  and collecting all violations.
\<close>

type_synonym object = "string \<Rightarrow> jsval"

definition objectOf :: "(string \<times> jsval) list \<Rightarrow> object" where
  "objectOf kvs k = (case map_of kvs k of None \<Rightarrow> Undefined | Some v \<Rightarrow> v)"

definition validate ::
  "(string \<Rightarrow> bool) \<Rightarrow> property list \<Rightarrow> object \<Rightarrow> (string \<times> constraint) list" where
  "validate em cls obj =
     concat (map (\<lambda>p. validateProperty em (name p) (validators p) (obj (name p))) cls)"

subsection \<open>The derived display identifier\<close>

text \<open>
  The getter of the virtual column, lines 145-148:
  \<^verbatim>\<open>const id = this.getDataValue('id'); return `A${id.toString().padStart(5, '0')}`;\<close>
  The id column is \<^verbatim>\<open>DataType.INTEGER\<close>: its data value is an integer, or it is
  missing (\<^verbatim>\<open>undefined\<close> or \<^verbatim>\<open>null\<close>, as before the row is saved), and
  then \<^verbatim>\<open>id.toString()\<close> throws a TypeError. \<^verbatim>\<open>Number.prototype.toString\<close>
  writes an integer of that range in plain decimal digits, with a minus sign when
  negative.
\<close>

datatype js_error = TypeError

definition digitChar :: "nat \<Rightarrow> char" where
  "digitChar d = ''0123456789'' ! d"

fun digitsOf :: "nat \<Rightarrow> string" where
  "digitsOf n = (if n < 10 then [digitChar n] else digitsOf (n div 10) @ [digitChar (n mod 10)])"

definition toString :: "int \<Rightarrow> string" where
  "toString k = (if k < 0 then CHR ''-'' # digitsOf (nat (- k)) else digitsOf (nat k))"

text \<open>
  \<^verbatim>\<open>String.prototype.padStart(targetLength, padString)\<close>: a string that is long
  enough is returned as it is; otherwise the pad string is repeated and cut to the
  missing length, and put in front.
\<close>

definition padStart :: "string \<Rightarrow> nat \<Rightarrow> string \<Rightarrow> string" where
  "padStart s targetLength padString =
     (if targetLength \<le> length s \<or> padString = [] then s
      else take (targetLength - length s)
             (concat (replicate (targetLength - length s) padString)) @ s)"

definition applicationId :: "int option \<Rightarrow> js_error + string" where
  "applicationId key =
     (case key of
        None \<Rightarrow> Inl TypeError
      | Some k \<Rightarrow> Inr (''A'' @ padStart (toString k) 5 ''0''))"

text \<open>
  The spec's words for the same value: the key "zero-padded to 5 digits", that is, its
  decimal digits with as many leading zeros as it takes to reach the width.
\<close>

definition zeroPad :: "int \<Rightarrow> nat \<Rightarrow> string" where
  "zeroPad k width = replicate (width - length (toString k)) CHR ''0'' @ toString k"

subsection \<open>The average loan amount\<close>

text \<open>
  Lines 381-389. The query selects \<^verbatim>\<open>AVG(loan_amount)\<close> over the whole table: SQL's
  aggregate is the mean of the values that are not NULL, and NULL when there is none. An
  aggregate query without grouping gives one row, so \<^verbatim>\<open>findOne\<close> finds it;
  \<^verbatim>\<open>result?.get('averageLoanAmount') || 0\<close> then replaces a falsy value by 0. The
  table is the list of its \<open>loan_amount\<close> values (\<open>None\<close> for NULL); the arithmetic is
  exact.
\<close>

definition AVG :: "rat option list \<Rightarrow> rat option" where
  "AVG col =
     (let xs = map the (filter (\<lambda>x. x \<noteq> None) col)
      in if xs = [] then None else Some (sum_list xs / of_nat (length xs)))"

definition findOneAverage :: "rat option list \<Rightarrow> object option" where
  "findOneAverage col =
     Some (objectOf [(''averageLoanAmount'', case AVG col of None \<Rightarrow> Null | Some r \<Rightarrow> NumV r)])"

definition getAverageLoanAmount :: "rat option list \<Rightarrow> jsval" where
  "getAverageLoanAmount col =
     (let result = findOneAverage col;
          got = (case result of None \<Rightarrow> Undefined | Some r \<Rightarrow> r ''averageLoanAmount'')
      in if truthy got then got else NumV 0)"

subsection \<open>Persistence: attributes and columns\<close>

text \<open>
  The attributes the table stores are the properties with a column whose type is not
  \<^verbatim>\<open>VIRTUAL\<close>. The monetary ones are those of type \<^verbatim>\<open>DECIMAL(10, 2)\<close>.
\<close>

definition persisted :: "property list \<Rightarrow> property list" where
  "persisted cls =
     filter (\<lambda>p. case column p of None \<Rightarrow> False | Some (ty, c) \<Rightarrow> ty \<noteq> VIRTUAL) cls"

definition monetary :: "property list \<Rightarrow> property list" where
  "monetary cls =
     filter (\<lambda>p. case column p of None \<Rightarrow> False | Some (ty, c) \<Rightarrow> ty = DECIMAL 10 2) cls"

definition columnName :: "property \<Rightarrow> string" where
  "columnName p = (case column p of None \<Rightarrow> name p | Some (ty, c) \<Rightarrow> c)"

text \<open>
  Saving an instance writes, attribute by attribute in the order of the class, the data
  value of every attribute that is not \<^verbatim>\<open>undefined\<close> under the name of its column:
  a later attribute with the same column overwrites an earlier one. Loading reads every
  attribute back from its column.
\<close>

definition save :: "property list \<Rightarrow> object \<Rightarrow> (string \<Rightarrow> jsval)" where
  "save cls dataValues =
     fold (\<lambda>p row. if dataValues (name p) = Undefined then row
                    else row (columnName p := dataValues (name p)))
       (persisted cls) (\<lambda>c. Null)"

definition reload :: "property list \<Rightarrow> (string \<Rightarrow> jsval) \<Rightarrow> object" where
  "reload cls row a =
     (case find (\<lambda>p. name p = a) (persisted cls) of
        None \<Rightarrow> Undefined
      | Some p \<Rightarrow> row (columnName p))"

subsection \<open>The response shapes\<close>

text \<open>
  \<^verbatim>\<open>PickType(C, keys)\<close> is the class with those properties of \<open>C\<close> whose name is
  among the keys, each with the decorators it has in \<open>C\<close>. Lines 51-68 and 75-85.
\<close>

definition PickType :: "property list \<Rightarrow> string list \<Rightarrow> property list" where
  "PickType cls keys = filter (\<lambda>p. name p \<in> set keys) cls"


definition BrokerApplicationDto :: "string list \<Rightarrow> property list" where
  "BrokerApplicationDto applicationStatus =
     PickType (Application applicationStatus)
       [''id'', ''applicationId'', ''createdAt'', ''status'', ''loanAmount'', ''loanDuration'',
        ''applicantName'', ''incomingAddress'', ''outgoingAddress'']"



text \<open>
  class-transformer's serialisation of an instance to a plain object keeps the
  properties the instance has, but for those its class marks \<^verbatim>\<open>@Exclude()\<close>.
\<close>

definition excluded :: "property list \<Rightarrow> string list" where
  "excluded cls = map name (filter exclude cls)"


subsection \<open>Example applications\<close>

text \<open>
  An e-mail test for the concrete evaluations: one \<open>@\<close> with something before it and a
  dot somewhere after it. The theorems hold for every test \<open>em\<close>.
\<close>

definition simpleEmail :: "string \<Rightarrow> bool" where
  "simpleEmail s =
     (let l = takeWhile (\<lambda>c. c \<noteq> CHR ''@'') s; d = drop (Suc (length l)) s
      in l \<noteq> [] \<and> length l < length s \<and> CHR ''@'' \<notin> set d \<and> CHR ''.'' \<in> set d)"

definition exampleProperties :: "(string \<times> jsval) list" where
  "exampleProperties =
     [ (''id'', NumV 7),
       (''applicationId'', StrV ''A00007''),
       (''applicantName'', StrV ''Jane Doe''),
       (''applicantEmail'', StrV ''jane@example.com''),
       (''applicantMobilePhoneNumber'', StrV ''0400000000''),
       (''applicantAddress'', StrV ''1 Main St''),
       (''brokerId'', NumV 3),
       (''annualIncomeBeforeTax'', NumV 90000),
       (''incomingAddress'', StrV ''2 New Rd''),
       (''incomingDeposit'', NumV 50000),
       (''incomingPrice'', NumV 700000),
       (''incomingStampDuty'', NumV 30000),
       (''loanAmount'', NumV 400000),
       (''loanDuration'', NumV 12),
       (''monthlyExpenses'', NumV 2500),
       (''outgoingAddress'', StrV ''3 Old Ln''),
       (''outgoingMortgage'', NumV 120000),
       (''outgoingValuation'', NumV 500000),
       (''savingsContribution'', NumV 20000),
       (''status'', StrV ''Pending''),
       (''createdAt'', DateV (Some 1704067200000)),
       (''updatedAt'', DateV (Some 1704067200000)) ]"

definition exampleApplication :: object where
  "exampleApplication = objectOf exampleProperties"

text \<open>The same application with the three applicant strings empty.\<close>

definition emptyStringsApplication :: object where
  "emptyStringsApplication =
     exampleApplication
       (''applicantName'' := StrV [], ''applicantAddress'' := StrV [],
        ''applicantMobilePhoneNumber'' := StrV [])"

section \<open>Properties of the request DTO\<close>

subsection \<open>Normalisation of the date parameters\<close>

lemma transformDate_StrV:
  "transformDate parse (StrV s) =
     (if s = [] then Null else case parse s of None \<Rightarrow> Null | Some t \<Rightarrow> DateV (Some t))"
  by (simp add: transformDate_def isNaN_def split: option.splits)

lemma transformDate_DateV:
  "transformDate parse (DateV t) = (case t of None \<Rightarrow> Null | Some u \<Rightarrow> DateV (Some u))"
  by (simp add: transformDate_def isNaN_def split: option.splits)

lemma normalizeDate_Some:
  "normalizeDate parse (Some s) = (case parse s of None \<Rightarrow> Null | Some t \<Rightarrow> DateV (Some t))"
  by (simp add: normalizeDate_def typeDate_def transformDate_DateV)

lemma parseDateOnly_2024: "parseDateOnly ''2024-01-01'' = Some 1704067200000"
  by (simp add: parseDateOnly_def digitVal_def daysInMonth_def daysFromCivil_def Let_def)

lemma parseDateOnly_2023: "parseDateOnly ''2023-01-01'' = Some 1672531200000"
  by (simp add: parseDateOnly_def digitVal_def daysInMonth_def daysFromCivil_def Let_def)

lemma parseDateOnly_not_a_date: "parseDateOnly ''not-a-date'' = None"
  by (simp add: parseDateOnly_def digitVal_def)

lemma parseDateOnly_empty: "parseDateOnly [] = None"
  by (simp add: parseDateOnly_def)

text \<open>
  Claim C8. For every supplied \<open>minimumDate\<close> or \<open>maximumDate\<close> string, the
  normalisation never raises: the arrow function of lines 35 and 44 maps an empty or
  unparseable string to \<open>null\<close> and a parseable one to the Date of its time value, and so
  does the whole transformation of the property (\<^verbatim>\<open>@Type\<close>, then
  \<^verbatim>\<open>@Transform\<close>) for an unparseable and for a parseable string.
\<close>

theorem normalization_unparseable_null:
  "(s = [] \<or> parse s = None \<longrightarrow> transformDate parse (StrV s) = Null)
   \<and> (s \<noteq> [] \<and> parse s = Some t \<longrightarrow> transformDate parse (StrV s) = DateV (Some t))
   \<and> (parse s = None \<longrightarrow> normalizeDate parse (Some s) = Null)
   \<and> (parse s = Some t \<longrightarrow> normalizeDate parse (Some s) = DateV (Some t))"
  by (simp add: transformDate_StrV normalizeDate_Some)

theorem normalization_unparseable_null_witness:
  "transformDate parseDateOnly (StrV []) = Null
   \<and> transformDate parseDateOnly (StrV ''not-a-date'') = Null
   \<and> transformDate parseDateOnly (StrV ''2024-01-01'') = DateV (Some 1704067200000)
   \<and> normalizeDate parseDateOnly (Some ''not-a-date'') = Null
   \<and> normalizeDate parseDateOnly (Some ''2024-01-01'') = DateV (Some 1704067200000)"
  using normalization_unparseable_null [of "[]" parseDateOnly 0]
    normalization_unparseable_null [of "''not-a-date''" parseDateOnly 0]
    normalization_unparseable_null [of "''2024-01-01''" parseDateOnly 1704067200000]
  by (simp add: parseDateOnly_2024 parseDateOnly_not_a_date)

subsection \<open>Validation of the date parameters\<close>






lemma filter_validateProperty:
  "filter (\<lambda>e. fst e = p) (validateProperty em p' vs v)
     = (if p = p' then validateProperty em p' vs v else [])"
  by (auto simp add: validateProperty_def filter_map o_def)




subsection \<open>The date range\<close>

text \<open>
  Claim C2. For every request whose two dates are both present after normalisation, with
  the minimum strictly greater than the maximum, the check of the date range fails with a
  \<open>DateRangeError\<close> carrying exactly the message
  \<open>MINIMUM_DATE_EXCEEDS_MAXIMUM_DATE_ERROR\<close>. The check is the one modelled from the
  spec; the normalisation is the source's.
\<close>

theorem inverted_range_DateRangeError:
  "minimumDate (plainToClass parse q) = DateV (Some a)
   \<and> maximumDate (plainToClass parse q) = DateV (Some b) \<and> a > b
   \<longrightarrow> checkDateRange (plainToClass parse q)
         = Inl (DateRangeError MINIMUM_DATE_EXCEEDS_MAXIMUM_DATE_ERROR)"
  by (simp add: checkDateRange_def)

theorem inverted_range_DateRangeError_witness:
  "minimumDate (plainToClass parseDateOnly invertedRangeQuery) = DateV (Some 1704067200000)
   \<and> maximumDate (plainToClass parseDateOnly invertedRangeQuery) = DateV (Some 1672531200000)
   \<and> (1704067200000 :: int) > 1672531200000
   \<and> checkDateRange (plainToClass parseDateOnly invertedRangeQuery)
         = Inl (DateRangeError MINIMUM_DATE_EXCEEDS_MAXIMUM_DATE_ERROR)"
  using inverted_range_DateRangeError
    [of parseDateOnly invertedRangeQuery 1704067200000 1672531200000]
  by (simp add: plainToClass_def invertedRangeQuery_def normalizeDate_Some
      parseDateOnly_2024 parseDateOnly_2023)

subsection \<open>The \<open>completed\<close> parameter\<close>




section \<open>Properties of the Application entity\<close>

subsection \<open>The display identifier\<close>

declare digitsOf.simps [simp del]

lemma digitsVal_append:
  "digitsVal acc (xs @ ys) =
     (case digitsVal acc xs of None \<Rightarrow> None | Some a \<Rightarrow> digitsVal a ys)"
  by (induction xs arbitrary: acc) (simp_all split: option.splits)

lemma digitVal_digitChar: "d < 10 \<Longrightarrow> digitVal (digitChar d) = Some (int d)"
proof -
  assume "d < 10"
  then have "d \<in> {0, 1, 2, 3, 4, 5, 6, 7, 8, 9}" by auto
  then show ?thesis
    by (auto simp add: digitChar_def digitVal_def)
qed

text \<open>Reading the decimal digits of a number back gives the number.\<close>

lemma digitsVal_digitsOf:
  "digitsVal acc (digitsOf n) = Some (acc * 10 ^ length (digitsOf n) + int n)"
proof (induction n arbitrary: acc rule: digitsOf.induct)
  case (1 n)
  show ?case
  proof (cases "n < 10")
    case True
    then show ?thesis
      by (subst (1 2) digitsOf.simps) (simp add: digitVal_digitChar)
  next
    case False
    have m: "n mod 10 < 10" by simp
    from False "1.IH" [of acc] show ?thesis
      apply (subst (1 2) digitsOf.simps)
      apply (simp add: digitsVal_append digitVal_digitChar [OF m] algebra_simps)
      apply (simp add: zmod_int zdiv_int)
      done
  qed
qed

lemma digitsVal_zeros: "digitsVal 0 (replicate m CHR ''0'') = Some 0"
  by (induction m) (simp_all add: digitVal_def)

lemma concat_replicate_single: "concat (replicate n [c]) = replicate n c"
  by (induction n) simp_all

lemma padStart_zeroPad: "padStart (toString k) 5 ''0'' = zeroPad k 5"
  by (simp add: padStart_def zeroPad_def concat_replicate_single)

lemma zeroPad_value: "0 \<le> k \<Longrightarrow> digitsVal 0 (zeroPad k w) = Some k"
  by (simp add: zeroPad_def toString_def digitsVal_append digitsVal_zeros digitsVal_digitsOf)

lemma toString_7: "toString 7 = ''7''"
  by (simp add: toString_def digitsOf.simps digitChar_def)

lemma toString_42: "toString 42 = ''42''"
  by (simp add: toString_def digitsOf.simps digitChar_def)

lemma toString_123456: "toString 123456 = ''123456''"
  by (simp add: toString_def digitsOf.simps digitChar_def)

text \<open>
  Claim C6. For every Application whose key is set, the getter returns \<open>A\<close> followed by
  the key zero-padded to five digits. The padding never truncates: the padded string is as
  long as the key's decimal form when that has more than five characters, it ends with
  that decimal form, and for a key that is not negative its digits read back as the key.
  Key 7 gives \<open>A00007\<close> and key 123456 gives \<open>A123456\<close>. The value depends on the key
  alone: the key is the getter's only argument.
\<close>

theorem applicationId_zero_padded:
  "applicationId (Some k) = Inr (CHR ''A'' # zeroPad k 5)
   \<and> length (zeroPad k 5) = max 5 (length (toString k))
   \<and> drop (length (zeroPad k 5) - length (toString k)) (zeroPad k 5) = toString k
   \<and> (0 \<le> k \<longrightarrow> digitsVal 0 (zeroPad k 5) = Some k)
   \<and> applicationId (Some 7) = Inr ''A00007''
   \<and> applicationId (Some 123456) = Inr ''A123456''"
proof -
  have a: "applicationId (Some j) = Inr (CHR ''A'' # zeroPad j 5)" for j
    by (simp add: applicationId_def padStart_zeroPad)
  have b: "length (zeroPad k 5) = max 5 (length (toString k))"
    by (simp add: zeroPad_def)
  have c: "drop (length (zeroPad k 5) - length (toString k)) (zeroPad k 5) = toString k"
    by (simp add: zeroPad_def)
  have d: "zeroPad 7 5 = ''00007''"
    by (simp add: zeroPad_def toString_7 numeral_eq_Suc)
  have e: "zeroPad 123456 5 = ''123456''"
    by (simp add: zeroPad_def toString_123456)
  have f: "applicationId (Some 7) = Inr ''A00007''"
    by (simp add: a d)
  have g: "applicationId (Some 123456) = Inr ''A123456''"
    by (simp add: a e)
  have h: "0 \<le> k \<longrightarrow> digitsVal 0 (zeroPad k 5) = Some k"
    by (simp add: zeroPad_value)
  from a [of k] b c h f g show ?thesis
    by (intro conjI)
qed

theorem applicationId_zero_padded_witness:
  "applicationId (Some 42) = Inr ''A00042'' \<and> (0::int) \<le> 42
   \<and> digitsVal 0 (zeroPad 42 5) = Some 42"
proof -
  have "zeroPad 42 5 = ''00042''"
    by (simp add: zeroPad_def toString_42 numeral_eq_Suc)
  with applicationId_zero_padded [of 42] show ?thesis by simp
qed

subsection \<open>The average loan amount\<close>

text \<open>
  Claim C7. \<open>getAverageLoanAmount\<close> returns the mean of the \<open>loan_amount\<close> column over
  the whole table (the mean of its values that are not NULL, which is the mean over all
  rows when every row has a loan amount), and on a table with no rows it returns the
  number 0: not \<open>null\<close>, not NaN, not an error.
\<close>

theorem getAverageLoanAmount_mean_or_zero:
  "getAverageLoanAmount [] = NumV 0
   \<and> getAverageLoanAmount col =
       NumV (let xs = map the (filter (\<lambda>x. x \<noteq> None) col)
             in if xs = [] then 0 else sum_list xs / of_nat (length xs))
   \<and> getAverageLoanAmount (map Some amounts) =
       NumV (if amounts = [] then 0 else sum_list amounts / of_nat (length amounts))"
proof -
  have g: "getAverageLoanAmount c =
       NumV (let xs = map the (filter (\<lambda>x. x \<noteq> None) c)
             in if xs = [] then 0 else sum_list xs / of_nat (length xs))" for c
    by (simp add: getAverageLoanAmount_def findOneAverage_def objectOf_def AVG_def Let_def)
  have m: "map the (filter (\<lambda>x. x \<noteq> None) (map Some amounts)) = amounts"
    by (induction amounts) simp_all
  show ?thesis
    using g [of "[]"] g [of col] g [of "map Some amounts"]
    by (simp add: m Let_def)
qed

theorem getAverageLoanAmount_mean_or_zero_witness:
  "getAverageLoanAmount [] = NumV 0
   \<and> getAverageLoanAmount [Some 100, Some 200, Some 600] = NumV 300"
  using getAverageLoanAmount_mean_or_zero [of "[Some 100, Some 200, Some 600]" "[100, 200, 600]"]
  by (simp add: Let_def)

subsection \<open>Validation of the applicant's fields\<close>

lemma filter_validate:
  "filter (\<lambda>e. fst e = k) (validate em cls obj)
     = concat (map (\<lambda>p. if k = name p
                          then validateProperty em (name p) (validators p) (obj (name p))
                          else []) cls)"
  by (induction cls) (simp_all add: validate_def filter_validateProperty)

lemma validate_applicantName:
  "filter (\<lambda>e. fst e = ''applicantName'') (validate em (Application AS) obj)
     = validateProperty em ''applicantName'' [IsString] (obj ''applicantName'')"
  by (simp add: filter_validate Application_def)

lemma validate_applicantAddress:
  "filter (\<lambda>e. fst e = ''applicantAddress'') (validate em (Application AS) obj)
     = validateProperty em ''applicantAddress'' [IsString] (obj ''applicantAddress'')"
  by (simp add: filter_validate Application_def)

lemma validate_applicantMobilePhoneNumber:
  "filter (\<lambda>e. fst e = ''applicantMobilePhoneNumber'') (validate em (Application AS) obj)
     = validateProperty em ''applicantMobilePhoneNumber'' [IsString]
         (obj ''applicantMobilePhoneNumber'')"
  by (simp add: filter_validate Application_def)

lemma validate_applicantEmail:
  "filter (\<lambda>e. fst e = ''applicantEmail'') (validate em (Application AS) obj)
     = validateProperty em ''applicantEmail'' [IsEmail] (obj ''applicantEmail'')"
  by (simp add: filter_validate Application_def)

lemma validateProperty_IsString:
  "validateProperty em p [IsString] v = (case v of StrV s \<Rightarrow> [] | _ \<Rightarrow> [(p, isString)])"
  by (simp add: validateProperty_def split: jsval.splits)

lemma validateProperty_IsEmail:
  "validateProperty em p [IsEmail] v
     = (case v of StrV s \<Rightarrow> if em s then [] else [(p, isEmail)] | _ \<Rightarrow> [(p, isEmail)])"
  by (simp add: validateProperty_def split: jsval.splits)

text \<open>
  Claim C9, as stated, fails: an application whose \<open>applicantName\<close>, \<open>applicantAddress\<close>
  and \<open>applicantMobilePhoneNumber\<close> are the empty string passes the validation of the
  entity.
\<close>

theorem empty_applicant_strings_accepted:
  "emptyStringsApplication ''applicantName'' = StrV []
   \<and> emptyStringsApplication ''applicantAddress'' = StrV []
   \<and> emptyStringsApplication ''applicantMobilePhoneNumber'' = StrV []
   \<and> validate simpleEmail (Application ApplicationStatus) emptyStringsApplication = []"
  by (simp add: emptyStringsApplication_def exampleApplication_def exampleProperties_def
      objectOf_def validate_def Application_def validateProperty_def simpleEmail_def
      ApplicationStatus_def isNaN_def)

text \<open>
  Claim C9, amended. For every input from which an Application is validated, each of
  \<open>applicantName\<close>, \<open>applicantAddress\<close> and \<open>applicantMobilePhoneNumber\<close> is accepted
  when it is a string, the empty string included, and rejected with \<open>isString\<close> when it is
  anything else; \<open>applicantEmail\<close> is accepted when it is a string that is a
  syntactically valid e-mail address and rejected with \<open>isEmail\<close> otherwise.
\<close>

theorem applicant_fields_validation:
  "(p \<in> {''applicantName'', ''applicantAddress'', ''applicantMobilePhoneNumber''} \<longrightarrow>
      filter (\<lambda>e. fst e = p) (validate em (Application AS) obj)
        = (case obj p of StrV s \<Rightarrow> [] | _ \<Rightarrow> [(p, isString)]))
   \<and> filter (\<lambda>e. fst e = ''applicantEmail'') (validate em (Application AS) obj)
        = (case obj ''applicantEmail'' of
             StrV s \<Rightarrow> if em s then [] else [(''applicantEmail'', isEmail)]
           | _ \<Rightarrow> [(''applicantEmail'', isEmail)])"
  using validate_applicantName [of em AS obj] validate_applicantAddress [of em AS obj]
    validate_applicantMobilePhoneNumber [of em AS obj] validate_applicantEmail [of em AS obj]
  by (auto simp only: validateProperty_IsString validateProperty_IsEmail insert_iff empty_iff)

theorem applicant_fields_validation_witness:
  "filter (\<lambda>e. fst e = ''applicantName'')
       (validate simpleEmail (Application ApplicationStatus) emptyStringsApplication) = []
   \<and> filter (\<lambda>e. fst e = ''applicantName'')
       (validate simpleEmail (Application ApplicationStatus)
           (emptyStringsApplication (''applicantName'' := NumV 5)))
       = [(''applicantName'', isString)]
   \<and> filter (\<lambda>e. fst e = ''applicantEmail'')
       (validate simpleEmail (Application ApplicationStatus)
           (emptyStringsApplication (''applicantEmail'' := StrV ''not-an-email'')))
       = [(''applicantEmail'', isEmail)]"
  using applicant_fields_validation
      [of "''applicantName''" simpleEmail ApplicationStatus emptyStringsApplication]
    applicant_fields_validation
      [of "''applicantName''" simpleEmail ApplicationStatus
        "emptyStringsApplication (''applicantName'' := NumV 5)"]
    applicant_fields_validation
      [of "''applicantName''" simpleEmail ApplicationStatus
        "emptyStringsApplication (''applicantEmail'' := StrV ''not-an-email'')"]
  by (simp add: emptyStringsApplication_def simpleEmail_def)

subsection \<open>Columns of the monetary attributes\<close>

lemma find_app:
  "find P (xs @ ys) = (case find P xs of None \<Rightarrow> find P ys | Some x \<Rightarrow> Some x)"
  by (induction xs) simp_all

text \<open>What a saved row holds in a column: the value of the last attribute written there.\<close>

lemma fold_save_lookup:
  "fold (\<lambda>p row. if dv (name p) = Undefined then row
                   else row (columnName p := dv (name p))) ps row0 c
     = (case find (\<lambda>p. columnName p = c \<and> dv (name p) \<noteq> Undefined) (rev ps) of
          None \<Rightarrow> row0 c
        | Some p \<Rightarrow> dv (name p))"
proof (induction ps arbitrary: row0)
  case Nil
  then show ?case by simp
next
  case (Cons p ps)
  show ?case
    by (simp add: Cons.IH find_app split: option.splits)
qed

lemma save_outgoing_valuation:
  "dataValues ''outgoingValuation'' \<noteq> Undefined \<Longrightarrow>
   save (Application AS) dataValues ''outgoing_valuation'' = dataValues ''outgoingValuation''"
  unfolding save_def fold_save_lookup
  by (simp add: persisted_def Application_def columnName_def)

lemma monetary_columns:
  "map columnName (monetary (Application AS)) =
     [''annual_income_before_tax'', ''incoming_deposit'', ''incoming_price'',
      ''incoming_stamp_duty'', ''loan_amount'', ''monthly_expenses'',
      ''outgoing_valuation'', ''outgoing_valuation'', ''savings_contribution'']"
  by (simp add: monetary_def Application_def columnName_def)

lemma reload_outgoingMortgage:
  "reload (Application AS) row ''outgoingMortgage'' = row ''outgoing_valuation''"
  by (simp add: reload_def persisted_def Application_def columnName_def)

text \<open>
  Claim C4 does not hold of the code. The columns of the monetary attributes are not
  distinct: \<open>outgoingMortgage\<close> and \<open>outgoingValuation\<close> are both mapped to the column
  \<open>outgoing_valuation\<close> (lines 307 and 318). Saving an application whose
  \<open>outgoingValuation\<close> is set and loading it again gives back, as \<open>outgoingMortgage\<close>,
  the valuation that was saved.
\<close>

theorem outgoingMortgage_reloads_as_outgoingValuation:
  "\<not> distinct (map columnName (monetary (Application AS)))
   \<and> (dataValues ''outgoingValuation'' \<noteq> Undefined \<longrightarrow>
        reload (Application AS) (save (Application AS) dataValues) ''outgoingMortgage''
          = dataValues ''outgoingValuation'')"
  by (simp add: monetary_columns reload_outgoingMortgage save_outgoing_valuation)

theorem outgoingMortgage_reloads_as_outgoingValuation_witness:
  "exampleApplication ''outgoingMortgage'' = NumV 120000
   \<and> exampleApplication ''outgoingValuation'' = NumV 500000
   \<and> reload (Application ApplicationStatus)
        (save (Application ApplicationStatus) exampleApplication) ''outgoingMortgage''
       = NumV 500000"
proof -
  have a: "exampleApplication ''outgoingMortgage'' = NumV 120000"
    by (simp add: exampleApplication_def exampleProperties_def objectOf_def)
  have b: "exampleApplication ''outgoingValuation'' = NumV 500000"
    by (simp add: exampleApplication_def exampleProperties_def objectOf_def)
  from outgoingMortgage_reloads_as_outgoingValuation [of ApplicationStatus exampleApplication]
  show ?thesis by (simp add: a b)
qed

subsection \<open>The response shapes\<close>




text \<open>
  The list-view class picks two of the three properties that the entity marks
  \<^verbatim>\<open>@Exclude()\<close>, and the marks come with them. The shape of the response is read
  here as the class declares it: its fields are the picked properties.
\<close>

lemma excluded_BrokerApplicationDto:
  "excluded (BrokerApplicationDto AS) = [''id'', ''createdAt'']"
  by (simp add: excluded_def BrokerApplicationDto_def PickType_def Application_def)






end
